theory Spec2Isabelle
  imports Main "HOL-Library.Sublist" "HOL-Library.Signed_Division"
begin

section \<open>The C library as meminfo.c uses it\<close>

text \<open>
  The model follows \<^verbatim>\<open>meminfo.c\<close> on Linux with 64-bit \<^verbatim>\<open>long\<close> (LP64). A C string is
  the list of its characters up to, and without, the terminating NUL. A \<^verbatim>\<open>long\<close> is an
  \<^typ>\<open>int\<close> together with the range check that C leaves to the programmer: an
  arithmetic result outside the range, and a division by zero, are undefined behaviour
  in C and are failures of their own in the model, never a wrapped value.
\<close>

definition LONG_MAX :: int where
  "LONG_MAX = 2 ^ 63 - 1"

definition LONG_MIN :: int where
  "LONG_MIN = - (2 ^ 63)"

definition in_long :: "int \<Rightarrow> bool" where
  "in_long x = (LONG_MIN \<le> x \<and> x \<le> LONG_MAX)"

datatype errno = No_error | EINVAL | ERANGE

text \<open>\<^verbatim>\<open>isspace\<close> and \<^verbatim>\<open>isdigit\<close> in the C locale.\<close>

definition isspace :: "char \<Rightarrow> bool" where
  "isspace c = (c \<in> set [CHR '' '', CHR 0x09, CHR 0x0A, CHR 0x0B, CHR 0x0C, CHR 0x0D])"

definition isdigit :: "char \<Rightarrow> bool" where
  "isdigit c = (c \<in> set ''0123456789'')"

definition digit_value :: "char \<Rightarrow> int" where
  "digit_value c = of_char c - 48"

text \<open>
  \<^verbatim>\<open>strstr(haystack, needle)\<close>: a pointer to the first occurrence of the needle, here the
  rest of the haystack from that occurrence on, or NULL, here \<^term>\<open>None\<close>.
\<close>

fun strstr :: "string \<Rightarrow> string \<Rightarrow> string option" where
  "strstr [] needle = (if needle = [] then Some [] else None)"
| "strstr (c # cs) needle =
     (if prefix needle (c # cs) then Some (c # cs) else strstr cs needle)"

text \<open>
  \<^verbatim>\<open>strtol(nptr, NULL, 10)\<close>. The subject sequence is what follows the leading white space:
  an optional sign, then the longest run of decimal digits. With no digit there, no
  conversion is performed and 0 is returned; POSIX lets the library set \<^verbatim>\<open>errno\<close> to
  EINVAL then, and libraries differ (glibc leaves \<^verbatim>\<open>errno\<close> alone, musl sets it), so that
  choice is the parameter \<open>einval\<close>. A value outside the range of \<^verbatim>\<open>long\<close> is clamped and
  \<^verbatim>\<open>errno\<close> is ERANGE. The second component is \<^verbatim>\<open>errno\<close> after the call, which the caller
  has cleared before it.
\<close>

definition skip_sign :: "string \<Rightarrow> bool \<times> string" where
  "skip_sign s =
     (case s of
        [] \<Rightarrow> (False, [])
      | c # cs \<Rightarrow>
          if c = CHR ''-'' then (True, cs)
          else if c = CHR ''+'' then (False, cs)
          else (False, s))"

definition subject :: "string \<Rightarrow> bool \<times> string" where
  "subject s = skip_sign (dropWhile isspace s)"

fun digits_value :: "int \<Rightarrow> string \<Rightarrow> int" where
  "digits_value acc [] = acc"
| "digits_value acc (c # cs) =
     (if isdigit c then digits_value (acc * 10 + digit_value c) cs else acc)"

definition no_conversion :: "string \<Rightarrow> bool" where
  "no_conversion s = (case snd (subject s) of [] \<Rightarrow> True | c # _ \<Rightarrow> \<not> isdigit c)"

definition subject_value :: "string \<Rightarrow> int" where
  "subject_value s =
     (case subject s of (neg, ds) \<Rightarrow> if neg then - digits_value 0 ds else digits_value 0 ds)"

definition strtol :: "bool \<Rightarrow> string \<Rightarrow> int \<times> errno" where
  "strtol einval s =
     (if no_conversion s then (0, if einval then EINVAL else No_error)
      else if LONG_MAX < subject_value s then (LONG_MAX, ERANGE)
      else if subject_value s < LONG_MIN then (LONG_MIN, ERANGE)
      else (subject_value s, No_error))"

text \<open>
  \<^verbatim>\<open>fscanf(f, "%*d %*s %c", &state)\<close> on the content of the file. \<^verbatim>\<open>%*d\<close> skips white
  space and matches an optionally signed run of digits, \<^verbatim>\<open>%*s\<close> skips white space and
  matches the following run of characters that are not white space, a blank in the format
  skips white space, and \<^verbatim>\<open>%c\<close> takes the next character. The first two store nothing. The
  call returns 1 with the character stored, here \<^term>\<open>Some state\<close>, or a value below 1
  (0 on a matching failure, EOF when the input ends), here \<^term>\<open>None\<close>.
\<close>

definition scan_d :: "string \<Rightarrow> string option" where
  "scan_d s =
     (case snd (subject s) of
        [] \<Rightarrow> None
      | c # cs \<Rightarrow> if isdigit c then Some (dropWhile isdigit cs) else None)"

definition scan_s :: "string \<Rightarrow> string option" where
  "scan_s s =
     (case dropWhile isspace s of
        [] \<Rightarrow> None
      | c # cs \<Rightarrow> Some (dropWhile (\<lambda>x. \<not> isspace x) cs))"

definition scan_c :: "string \<Rightarrow> char option" where
  "scan_c s = (case s of [] \<Rightarrow> None | c # _ \<Rightarrow> Some c)"

definition fscanf_d_s_c :: "string \<Rightarrow> char option" where
  "fscanf_d_s_c s =
     (case scan_d s of
        None \<Rightarrow> None
      | Some r1 \<Rightarrow>
          (case scan_s (dropWhile isspace r1) of
             None \<Rightarrow> None
           | Some r2 \<Rightarrow> scan_c (dropWhile isspace r2)))"

section \<open>Process state, failures and checked arithmetic\<close>

text \<open>
  What a call can leave behind: the two \<^verbatim>\<open>static\<close> variables of \<^verbatim>\<open>parse_meminfo\<close> (\<open>fd\<close> is
  whether the handle is not NULL) and what was written to the standard error stream.
\<close>

datatype message = Perror_strtol errno | Warning_guesstimate | Warn_is_alive

record world =
  fd :: bool
  guesstimate_warned :: int
  stderr :: "message list"

datatype failure = Exit int | Signed_overflow | Division_by_zero

type_synonym 'a prog = "world \<Rightarrow> (failure + 'a) \<times> world"

definition ret :: "'a \<Rightarrow> 'a prog" where
  "ret v w = (Inr v, w)"

definition seq :: "'a prog \<Rightarrow> ('a \<Rightarrow> 'b prog) \<Rightarrow> 'b prog" where
  "seq m f w = (case m w of (Inl e, w') \<Rightarrow> (Inl e, w') | (Inr v, w') \<Rightarrow> f v w')"

definition lift :: "failure + 'a \<Rightarrow> 'a prog" where
  "lift r w = (r, w)"

definition to_stderr :: "message \<Rightarrow> unit prog" where
  "to_stderr m w = (Inr (), w\<lparr>stderr := stderr w @ [m]\<rparr>)"

text \<open>
  Modelled from the spec: \<^verbatim>\<open>fatal\<close> and \<^verbatim>\<open>warn\<close> of \<^verbatim>\<open>msg.h\<close>, which is not among the sources.
  \<^verbatim>\<open>fatal(code, ...)\<close> terminates the whole process with the exit code given; \<^verbatim>\<open>warn\<close>
  writes a warning and returns.
\<close>

definition fatal :: "int \<Rightarrow> 'a prog" where
  "fatal code w = (Inl (Exit code), w)"

definition warn :: "message \<Rightarrow> unit prog" where
  "warn m = to_stderr m"

definition long_add :: "int \<Rightarrow> int \<Rightarrow> failure + int" where
  "long_add a b = (if in_long (a + b) then Inr (a + b) else Inl Signed_overflow)"

definition long_sub :: "int \<Rightarrow> int \<Rightarrow> failure + int" where
  "long_sub a b = (if in_long (a - b) then Inr (a - b) else Inl Signed_overflow)"

definition long_mul :: "int \<Rightarrow> int \<Rightarrow> failure + int" where
  "long_mul a b = (if in_long (a * b) then Inr (a * b) else Inl Signed_overflow)"

text \<open>C's \<^verbatim>\<open>/\<close> on signed integers truncates towards zero: \<^term>\<open>(sdiv)\<close>.\<close>

definition long_div :: "int \<Rightarrow> int \<Rightarrow> failure + int" where
  "long_div a b =
     (if b = 0 then Inl Division_by_zero
      else if in_long (a sdiv b) then Inr (a sdiv b)
      else Inl Signed_overflow)"

section \<open>The field extractor\<close>

definition get_entry :: "bool \<Rightarrow> string \<Rightarrow> string \<Rightarrow> int prog" where
  "get_entry einval name buf =
     (case strstr buf name of
        None \<Rightarrow> ret (- 1)
      | Some hit \<Rightarrow>
          (case strtol einval (drop (length name) hit) of
             (val, err) \<Rightarrow>
               if err \<noteq> No_error
               then seq (to_stderr (Perror_strtol err)) (\<lambda>_. ret (- 1))
               else ret val))"

definition get_entry_fatal :: "bool \<Rightarrow> string \<Rightarrow> string \<Rightarrow> int prog" where
  "get_entry_fatal einval name buf =
     seq (get_entry einval name buf) (\<lambda>val.
     seq (if val = - 1 then fatal 104 else ret ()) (\<lambda>_.
     ret val))"

definition available_guesstimate :: "bool \<Rightarrow> string \<Rightarrow> int prog" where
  "available_guesstimate einval buf =
     seq (get_entry_fatal einval ''Cached:'' buf) (\<lambda>Cached.
     seq (get_entry_fatal einval ''MemFree:'' buf) (\<lambda>MemFree.
     seq (get_entry_fatal einval ''Buffers:'' buf) (\<lambda>Buffers.
     seq (get_entry_fatal einval ''Shmem:'' buf) (\<lambda>Shmem.
     seq (lift (long_add MemFree Cached)) (\<lambda>t1.
     seq (lift (long_add t1 Buffers)) (\<lambda>t2.
     lift (long_sub t2 Shmem)))))))"

section \<open>The global memory reader\<close>

text \<open>
  Modelled from the spec: the struct \<^verbatim>\<open>meminfo_t\<close> of \<^verbatim>\<open>meminfo.h\<close>, which is not among the
  sources. Its eight fields are integers; each holds the \<^verbatim>\<open>long\<close> assigned to it, with no
  narrowing.
\<close>

record meminfo_t =
  MemTotalKiB :: int
  MemTotalMiB :: int
  MemAvailableMiB :: int
  MemAvailablePercent :: int
  SwapTotalKiB :: int
  SwapTotalMiB :: int
  SwapFreeMiB :: int
  SwapFreePercent :: int

text \<open>
  \<^verbatim>\<open>/proc/meminfo\<close> as one call finds it: whether \<^verbatim>\<open>fopen\<close> succeeds, and the bytes that a
  read from the start of the file delivers.
\<close>

record meminfo_file =
  openable :: bool
  contents :: string

definition c_string :: "string \<Rightarrow> string" where
  "c_string bytes = takeWhile (\<lambda>c. c \<noteq> CHR 0x00) bytes"

text \<open>
  \<^verbatim>\<open>parse_meminfo\<close> in its three parts. Lines 64 to 77: open the file unless it is open
  already, read at most 8191 bytes into the zeroed buffer, and leave with exit code 102 when
  that fails.
\<close>

definition read_meminfo :: "meminfo_file \<Rightarrow> string prog" where
  "read_meminfo file =
     seq (\<lambda>w. ret () (if fd w then w else w\<lparr>fd := openable file\<rparr>)) (\<lambda>_.
     seq (\<lambda>w. if fd w then ret () w else fatal 102 w) (\<lambda>_.
     seq (if length (take 8191 (contents file)) = 0 then fatal 102 else ret ()) (\<lambda>_.
     ret (c_string (take 8191 (contents file))))))"

text \<open>
  Lines 79 to 91: the entries, as the tuple (MemTotal, SwapTotal, SwapFree, MemAvailable),
  where MemAvailable is the estimate when the extractor answers -1, with the warning on
  the first such call.
\<close>

definition warn_guesstimate_once :: "unit prog" where
  "warn_guesstimate_once w =
     (if guesstimate_warned w = 0
      then seq (to_stderr Warning_guesstimate)
             (\<lambda>_ w'. ret () (w'\<lparr>guesstimate_warned := 1\<rparr>)) w
      else ret () w)"

definition meminfo_entries :: "bool \<Rightarrow> string \<Rightarrow> (int \<times> int \<times> int \<times> int) prog" where
  "meminfo_entries einval buf =
     seq (get_entry_fatal einval ''MemTotal:'' buf) (\<lambda>MemTotal.
     seq (get_entry_fatal einval ''SwapTotal:'' buf) (\<lambda>SwapTotal.
     seq (get_entry_fatal einval ''SwapFree:'' buf) (\<lambda>SwapFree.
     seq (get_entry einval ''MemAvailable:'' buf) (\<lambda>MemAvailable.
     if MemAvailable = - 1
     then seq (available_guesstimate einval buf) (\<lambda>MemAvailable'.
          seq warn_guesstimate_once (\<lambda>_.
          ret (MemTotal, SwapTotal, SwapFree, MemAvailable')))
     else ret (MemTotal, SwapTotal, SwapFree, MemAvailable)))))"

text \<open>Lines 93 to 107: the percentages and the conversion to MiB.\<close>

definition and_then :: "failure + 'a \<Rightarrow> ('a \<Rightarrow> failure + 'b) \<Rightarrow> failure + 'b" where
  "and_then r f = (case r of Inl e \<Rightarrow> Inl e | Inr v \<Rightarrow> f v)"

definition meminfo_derive :: "int \<times> int \<times> int \<times> int \<Rightarrow> failure + meminfo_t" where
  "meminfo_derive entries =
     (case entries of (MemTotal, SwapTotal, SwapFree, MemAvailable) \<Rightarrow>
        and_then (long_mul MemAvailable 100) (\<lambda>a100.
        and_then (long_div a100 MemTotal) (\<lambda>mem_percent.
        and_then (if 0 < SwapTotal
                  then and_then (long_mul SwapFree 100) (\<lambda>s100. long_div s100 SwapTotal)
                  else Inr 0) (\<lambda>swap_percent.
        and_then (long_div MemTotal 1024) (\<lambda>mem_total_mib.
        and_then (long_div MemAvailable 1024) (\<lambda>mem_available_mib.
        and_then (long_div SwapTotal 1024) (\<lambda>swap_total_mib.
        and_then (long_div SwapFree 1024) (\<lambda>swap_free_mib.
        Inr \<lparr>MemTotalKiB = MemTotal,
             MemTotalMiB = mem_total_mib,
             MemAvailableMiB = mem_available_mib,
             MemAvailablePercent = mem_percent,
             SwapTotalKiB = SwapTotal,
             SwapTotalMiB = swap_total_mib,
             SwapFreeMiB = swap_free_mib,
             SwapFreePercent = swap_percent\<rparr>))))))))"

definition parse_meminfo :: "bool \<Rightarrow> meminfo_file \<Rightarrow> meminfo_t prog" where
  "parse_meminfo einval file =
     seq (read_meminfo file) (\<lambda>buf.
     seq (meminfo_entries einval buf) (\<lambda>entries.
     lift (meminfo_derive entries)))"

text \<open>
  The lifetime of the process: one call of \<^verbatim>\<open>parse_meminfo\<close> after the other, each on the
  file as it is then, until a call does not return.
\<close>

fun parse_meminfo_calls :: "bool \<Rightarrow> meminfo_file list \<Rightarrow> world \<Rightarrow> world" where
  "parse_meminfo_calls einval [] w = w"
| "parse_meminfo_calls einval (file # files) w =
     (case parse_meminfo einval file w of
        (Inl e, w') \<Rightarrow> w'
      | (Inr m, w') \<Rightarrow> parse_meminfo_calls einval files w')"

definition warnings :: "world \<Rightarrow> nat" where
  "warnings w = count_list (stderr w) Warning_guesstimate"

section \<open>The process introspector\<close>

text \<open>
  \<open>proc_stat pid\<close> is the content of \<^verbatim>\<open>/proc/[pid]/stat\<close>, or \<^term>\<open>None\<close> when \<^verbatim>\<open>fopen\<close>
  fails. The \<^verbatim>\<open>debug\<close> trace of the state is left out: it changes neither the verdict
  nor the warnings.
\<close>

definition is_alive :: "(int \<Rightarrow> string option) \<Rightarrow> int \<Rightarrow> bool prog" where
  "is_alive proc_stat pid =
     (case proc_stat pid of
        None \<Rightarrow> ret False
      | Some content \<Rightarrow>
          (case fscanf_d_s_c content of
             None \<Rightarrow> seq (warn Warn_is_alive) (\<lambda>_. ret False)
           | Some state \<Rightarrow> if state = CHR ''Z'' then ret False else ret True))"

section \<open>Notions for stating and proving the properties\<close>

text \<open>The process as it starts: both \<^verbatim>\<open>static\<close> variables zero, nothing written yet.\<close>

definition initial_world :: world where
  "initial_world = \<lparr>fd = False, guesstimate_warned = 0, stderr = []\<rparr>"

text \<open>
  What \<^const>\<open>get_entry\<close> returns and what it writes depend on its arguments only; \<open>entry\<close> and
  \<open>entry_log\<close> are these two, apart (\<open>get_entry_run\<close> below).
\<close>

definition entry :: "bool \<Rightarrow> string \<Rightarrow> string \<Rightarrow> int" where
  "entry einval name buf =
     (case strstr buf name of
        None \<Rightarrow> - 1
      | Some hit \<Rightarrow>
          if snd (strtol einval (drop (length name) hit)) \<noteq> No_error then - 1
          else fst (strtol einval (drop (length name) hit)))"

definition entry_log :: "bool \<Rightarrow> string \<Rightarrow> string \<Rightarrow> message list" where
  "entry_log einval name buf =
     (case strstr buf name of
        None \<Rightarrow> []
      | Some hit \<Rightarrow>
          if snd (strtol einval (drop (length name) hit)) \<noteq> No_error
          then [Perror_strtol (snd (strtol einval (drop (length name) hit)))]
          else [])"

definition logged :: "message list \<Rightarrow> world \<Rightarrow> world" where
  "logged ms w = w\<lparr>stderr := stderr w @ ms\<rparr>"

text \<open>
  The estimate of \<^const>\<open>available_guesstimate\<close> as a function of the blob
  (\<open>fst_available_guesstimate\<close> below), and whether a call on the blob goes through the
  estimate and comes back from it.
\<close>

definition estimate :: "bool \<Rightarrow> string \<Rightarrow> failure + int" where
  "estimate einval buf =
     (if entry einval ''Cached:'' buf = - 1 \<or> entry einval ''MemFree:'' buf = - 1 \<or>
         entry einval ''Buffers:'' buf = - 1 \<or> entry einval ''Shmem:'' buf = - 1
      then Inl (Exit 104)
      else and_then (long_add (entry einval ''MemFree:'' buf) (entry einval ''Cached:'' buf)) (\<lambda>t1.
           and_then (long_add t1 (entry einval ''Buffers:'' buf)) (\<lambda>t2.
           long_sub t2 (entry einval ''Shmem:'' buf))))"

definition fallback_completes :: "bool \<Rightarrow> string \<Rightarrow> bool" where
  "fallback_completes einval buf =
     (entry einval ''MemTotal:'' buf \<noteq> - 1 \<and> entry einval ''SwapTotal:'' buf \<noteq> - 1 \<and>
      entry einval ''SwapFree:'' buf \<noteq> - 1 \<and> entry einval ''MemAvailable:'' buf = - 1 \<and>
      (case estimate einval buf of Inl _ \<Rightarrow> False | Inr _ \<Rightarrow> True))"

text \<open>A step that leaves the two \<^verbatim>\<open>static\<close> variables and the number of warnings alone.\<close>

definition quiet :: "'a prog \<Rightarrow> bool" where
  "quiet p = (\<forall>w. fd (snd (p w)) = fd w \<and>
                  guesstimate_warned (snd (p w)) = guesstimate_warned w \<and>
                  warnings (snd (p w)) = warnings w)"

text \<open>The file as a call finds it when it can be opened and holds the bytes given.\<close>

definition readable :: "string \<Rightarrow> meminfo_file" where
  "readable bytes = \<lparr>openable = True, contents = bytes\<rparr>"

text \<open>Blobs for the examples, in the layout of \<^verbatim>\<open>/proc/meminfo\<close>.\<close>

definition blob_native :: string where
  "blob_native =
     ''MemTotal: 8000 kB\<newline>MemAvailable: 2999 kB\<newline>SwapTotal: 300 kB\<newline>SwapFree: 200 kB\<newline>''"

definition blob_no_swap :: string where
  "blob_no_swap =
     ''MemTotal: 8000 kB\<newline>MemAvailable: 2999 kB\<newline>SwapTotal: 0 kB\<newline>SwapFree: 0 kB\<newline>''"

definition blob_swap_used :: string where
  "blob_swap_used =
     ''MemTotal: 8000 kB\<newline>MemAvailable: 2999 kB\<newline>SwapTotal: 300 kB\<newline>SwapFree: 0 kB\<newline>''"

definition blob_zero_total :: string where
  "blob_zero_total =
     ''MemTotal: 0 kB\<newline>MemAvailable: 5 kB\<newline>SwapTotal: 0 kB\<newline>SwapFree: 0 kB\<newline>''"

definition blob_no_total :: string where
  "blob_no_total = ''SwapTotal: 0\<newline>SwapFree: 0\<newline>MemAvailable: 5\<newline>''"

text \<open>Older kernels: no MemAvailable. In the second blob Shmem exceeds the other three.\<close>

definition blob_fallback :: string where
  "blob_fallback =
     ''MemTotal: 1000\<newline>MemFree: 100\<newline>Cached: 50\<newline>Buffers: 20\<newline>Shmem: 10\<newline>SwapTotal: 0\<newline>SwapFree: 0\<newline>''"

definition blob_shmem_above :: string where
  "blob_shmem_above =
     ''MemTotal: 3\<newline>MemFree: 0\<newline>Cached: 0\<newline>Buffers: 0\<newline>Shmem: 1\<newline>SwapTotal: 0\<newline>SwapFree: 0\<newline>''"

text \<open>A MemTotal below zero, which no kernel writes.\<close>

definition blob_negative_total :: string where
  "blob_negative_total =
     ''MemTotal: -3\<newline>MemAvailable: 1\<newline>SwapTotal: 0\<newline>SwapFree: 0\<newline>''"

text \<open>The entry of MemAvailable reads -1.\<close>

definition blob_minus_one :: string where
  "blob_minus_one =
     ''MemTotal: 1000\<newline>MemFree: 100\<newline>Cached: 50\<newline>Buffers: 20\<newline>Shmem: 10\<newline>SwapTotal: 0\<newline>SwapFree: 0\<newline>MemAvailable: -1\<newline>''"

section \<open>The C library: facts\<close>

lemma strstr_None_iff: "strstr buf name = None \<longleftrightarrow> \<not> sublist name buf"
  by (induction buf) (auto simp: sublist_Cons_right)

lemma strstr_Some_prefix: "strstr buf name = Some hit \<Longrightarrow> prefix name hit \<and> suffix hit buf"
  by (induction buf) (auto split: if_splits simp: suffix_Cons)

text \<open>The hit is the first occurrence: the needle starts at no earlier position.\<close>

lemma strstr_first:
  "strstr buf name = Some hit \<Longrightarrow>
     \<exists>pre. buf = pre @ hit \<and> prefix name hit \<and>
       (\<forall>n < length pre. \<not> prefix name (drop n buf))"
proof (induction buf)
  case Nil
  then show ?case by (auto split: if_splits)
next
  case (Cons c cs)
  show ?case
  proof (cases "prefix name (c # cs)")
    case True
    with Cons.prems have "hit = c # cs" by simp
    with True show ?thesis by (intro exI [of _ "[]"]) simp
  next
    case False
    with Cons.prems have "strstr cs name = Some hit" by simp
    from Cons.IH [OF this] obtain pre where pre: "cs = pre @ hit" "prefix name hit"
      "\<forall>n < length pre. \<not> prefix name (drop n cs)" by blast
    have "\<forall>n < length (c # pre). \<not> prefix name (drop n (c # cs))"
    proof (intro allI impI)
      fix n assume "n < length (c # pre)"
      then show "\<not> prefix name (drop n (c # cs))"
        using False pre(3) by (cases n) auto
    qed
    with pre(1,2) show ?thesis by (intro exI [of _ "c # pre"]) simp
  qed
qed

lemma strtol_in_long: "in_long (fst (strtol einval s))"
  by (simp add: strtol_def in_long_def LONG_MAX_def LONG_MIN_def)

lemmas strtol_eval = strtol_def no_conversion_def subject_def skip_sign_def isspace_def
  isdigit_def subject_value_def digit_value_def LONG_MAX_def LONG_MIN_def in_long_def

section \<open>The field extractor: facts\<close>

lemma get_entry_run:
  "get_entry einval name buf w =
     (Inr (entry einval name buf), logged (entry_log einval name buf) w)"
  by (simp add: get_entry_def entry_def entry_log_def logged_def ret_def seq_def to_stderr_def
      split: option.splits prod.splits)

lemma get_entry_fatal_run:
  "get_entry_fatal einval name buf w =
     (if entry einval name buf = - 1 then Inl (Exit 104) else Inr (entry einval name buf),
      logged (entry_log einval name buf) w)"
  by (simp add: get_entry_fatal_def get_entry_run seq_def fatal_def ret_def)

lemma entry_in_long: "in_long (entry einval name buf)"
  using strtol_in_long
  by (simp add: entry_def in_long_def LONG_MAX_def LONG_MIN_def split: option.splits)

lemma entry_cases:
  "entry einval name buf =
     (case strstr buf name of
        None \<Rightarrow> - 1
      | Some hit \<Rightarrow>
          if no_conversion (drop (length name) hit) then (if einval then - 1 else 0)
          else if in_long (subject_value (drop (length name) hit))
               then subject_value (drop (length name) hit) else - 1)"
  by (simp add: entry_def strtol_def in_long_def split: option.splits)

text \<open>
  C3, as amended. \<^const>\<open>get_entry\<close> answers -1, its sign for "not found", exactly when the
  label is not a substring of the blob, or \<^verbatim>\<open>strtol\<close> reports an error for the text after
  the first occurrence of the label (no digits follow and the library sets \<^verbatim>\<open>errno\<close> then,
  or the number is outside the range of \<^verbatim>\<open>long\<close>), or the number written there is -1 itself.
  In every other case it returns what \<^verbatim>\<open>strtol\<close> parsed after the first occurrence of the
  label: the number written there, and 0 when no digits follow. The occurrence that
  \<^verbatim>\<open>strstr\<close> finds is the first: the label starts at no earlier position of the blob.
\<close>

theorem get_entry_not_found_iff:
  "((fst (get_entry einval name buf w) = Inr (- 1)) =
      (case strstr buf name of
         None \<Rightarrow> True
       | Some hit \<Rightarrow>
           (no_conversion (drop (length name) hit) \<and> einval) \<or>
           (\<not> no_conversion (drop (length name) hit) \<and>
              (\<not> in_long (subject_value (drop (length name) hit)) \<or>
               subject_value (drop (length name) hit) = - 1)))) \<and>
   ((strstr buf name = None) = (\<not> sublist name buf)) \<and>
   (fst (get_entry einval name buf w) \<noteq> Inr (- 1) \<longrightarrow>
      (\<exists>hit. strstr buf name = Some hit \<and>
         fst (get_entry einval name buf w) =
           Inr (if no_conversion (drop (length name) hit) then 0
                else subject_value (drop (length name) hit)))) \<and>
   (\<forall>hit. strstr buf name = Some hit \<longrightarrow>
      (\<exists>pre. buf = pre @ hit \<and> prefix name hit \<and>
         (\<forall>n < length pre. \<not> prefix name (drop n buf))))"
  using strstr_first [of buf name]
  by (auto simp: get_entry_run entry_cases strstr_None_iff [symmetric] split: option.splits)

theorem get_entry_not_found_iff_witness:
  "fst (get_entry False ''MemTotal:'' ''MemTotal: 42 kB'' initial_world) = Inr 42 \<and>
   sublist ''MemTotal:'' ''MemTotal: 42 kB'' \<and>
   fst (get_entry False ''MemTotal:'' ''MemFree: 5'' initial_world) = Inr (- 1) \<and>
   \<not> sublist ''MemTotal:'' ''MemFree: 5''"
  using get_entry_not_found_iff [of False "''MemTotal:''" "''MemTotal: 42 kB''" initial_world]
    get_entry_not_found_iff [of False "''MemTotal:''" "''MemFree: 5''" initial_world]
  by (simp add: strtol_eval)

text \<open>
  C3 as the specification states it fails: in \<^verbatim>\<open>MemTotal: -1\<close> the label is there and a
  decimal integer follows it, and the answer is -1 all the same, with either library.
\<close>

theorem get_entry_sentinel_counterexample:
  "strstr ''MemTotal: -1'' ''MemTotal:'' = Some ''MemTotal: -1'' \<and>
   \<not> no_conversion (drop (length ''MemTotal:'') ''MemTotal: -1'') \<and>
   subject_value (drop (length ''MemTotal:'') ''MemTotal: -1'') = - 1 \<and>
   fst (get_entry False ''MemTotal:'' ''MemTotal: -1'' initial_world) = Inr (- 1) \<and>
   fst (get_entry True ''MemTotal:'' ''MemTotal: -1'' initial_world) = Inr (- 1) \<and>
   \<not> ((fst (get_entry False ''MemTotal:'' ''MemTotal: -1'' initial_world) = Inr (- 1)) =
        (case strstr ''MemTotal: -1'' ''MemTotal:'' of
           None \<Rightarrow> True
         | Some hit \<Rightarrow> no_conversion (drop (length ''MemTotal:'') hit))) \<and>
   \<not> ((fst (get_entry True ''MemTotal:'' ''MemTotal: -1'' initial_world) = Inr (- 1)) =
        (case strstr ''MemTotal: -1'' ''MemTotal:'' of
           None \<Rightarrow> True
         | Some hit \<Rightarrow> no_conversion (drop (length ''MemTotal:'') hit)))"
  by (simp add: get_entry_def ret_def strtol_eval)

section \<open>Truncating division: facts\<close>

lemma sdiv_nonneg: "0 \<le> a \<Longrightarrow> 0 < b \<Longrightarrow> a sdiv b = a div (b::int)"
  by (cases "a = 0") (simp_all add: signed_divide_int_def)

lemma sdiv_eq_0_iff:
  fixes a b :: int
  assumes "b \<noteq> 0"
  shows "a sdiv b = 0 \<longleftrightarrow> \<bar>a\<bar> < \<bar>b\<bar>"
proof -
  have "\<bar>a\<bar> div \<bar>b\<bar> = 0 \<longleftrightarrow> \<bar>a\<bar> < \<bar>b\<bar>"
    using assms by (auto simp: zdiv_eq_0_iff)
  moreover have "a = 0 \<Longrightarrow> \<bar>a\<bar> < \<bar>b\<bar>"
    using assms by simp
  ultimately show ?thesis
    using assms by (auto simp: signed_divide_int_def sgn_if)
qed

lemma div_le_self_int: "0 \<le> a \<Longrightarrow> a div b \<le> (a::int)"
  by (cases "a = 0") (simp_all add: int_div_le_self)

lemma sdiv_between:
  fixes a b :: int
  assumes "0 < b"
  shows "min a 0 \<le> a sdiv b \<and> a sdiv b \<le> max a 0"
proof (cases "0 \<le> a")
  case True
  then have "a sdiv b = a div b" using assms by (simp add: sdiv_nonneg)
  moreover have "0 \<le> a div b" using True assms by (simp add: pos_imp_zdiv_nonneg_iff)
  moreover have "a div b \<le> a" using True by (rule div_le_self_int)
  ultimately show ?thesis using True by simp
next
  case False
  then have "a sdiv b = - (- a div b)" using assms by (simp add: signed_divide_int_def sgn_if)
  moreover have "0 \<le> - a div b" using False assms by (simp add: pos_imp_zdiv_nonneg_iff)
  moreover have "- a div b \<le> - a" using False by (intro div_le_self_int) simp
  ultimately show ?thesis using False by simp
qed

lemma sdiv_1024_in_long: "in_long a \<Longrightarrow> in_long (a sdiv 1024)"
  using sdiv_between [of 1024 a] by (simp add: in_long_def LONG_MAX_def LONG_MIN_def, linarith)

lemma times_100_not_LONG_MIN: "a * 100 \<noteq> LONG_MIN"
proof
  assume "a * 100 = LONG_MIN"
  moreover have "(100::int) dvd a * 100" by simp
  ultimately have "(100::int) dvd LONG_MIN" by simp
  then show False by (simp add: LONG_MIN_def)
qed

lemma abs_in_long: "in_long x \<Longrightarrow> x \<noteq> LONG_MIN \<Longrightarrow> \<bar>x\<bar> \<le> LONG_MAX"
  by (simp add: in_long_def LONG_MIN_def LONG_MAX_def, linarith)

lemma sdiv_100_in_long:
  assumes "in_long (a * 100)" shows "in_long ((a * 100) sdiv b)"
proof -
  have "\<bar>a * 100\<bar> \<le> LONG_MAX"
    using assms times_100_not_LONG_MIN by (rule abs_in_long)
  moreover have "(a * 100) sdiv b \<in> {- \<bar>a * 100\<bar>..\<bar>a * 100\<bar>}" by (rule sdiv_int_range)
  ultimately show ?thesis using assms by (simp add: in_long_def LONG_MIN_def LONG_MAX_def)
qed

section \<open>The global memory reader: facts\<close>

lemma quiet_ret: "quiet (ret v)"
  by (simp add: quiet_def ret_def)

lemma quiet_fatal: "quiet (fatal c)"
  by (simp add: quiet_def fatal_def)

lemma quiet_lift: "quiet (lift r)"
  by (simp add: quiet_def lift_def)

lemma quiet_seq: "quiet m \<Longrightarrow> (\<And>v. quiet (f v)) \<Longrightarrow> quiet (seq m f)"
  unfolding quiet_def seq_def
proof (intro allI)
  fix w
  assume m: "\<forall>w. fd (snd (m w)) = fd w \<and> guesstimate_warned (snd (m w)) = guesstimate_warned w \<and>
      warnings (snd (m w)) = warnings w"
    and f: "\<And>v. \<forall>w. fd (snd (f v w)) = fd w \<and> guesstimate_warned (snd (f v w)) = guesstimate_warned w \<and>
      warnings (snd (f v w)) = warnings w"
  obtain r w' where mw: "m w = (r, w')" by (cases "m w")
  with m [rule_format, of w] have w': "fd w' = fd w" "guesstimate_warned w' = guesstimate_warned w"
    "warnings w' = warnings w" by simp_all
  show "fd (snd (case m w of (Inl e, w') \<Rightarrow> (Inl e, w') | (Inr v, w') \<Rightarrow> f v w')) = fd w \<and>
     guesstimate_warned (snd (case m w of (Inl e, w') \<Rightarrow> (Inl e, w') | (Inr v, w') \<Rightarrow> f v w')) =
       guesstimate_warned w \<and>
     warnings (snd (case m w of (Inl e, w') \<Rightarrow> (Inl e, w') | (Inr v, w') \<Rightarrow> f v w')) = warnings w"
  proof (cases r)
    case (Inl e)
    with mw w' show ?thesis by simp
  next
    case (Inr v)
    with mw w' f [of v, rule_format, of w'] show ?thesis by simp
  qed
qed

lemma warnings_logged: "warnings (logged ms w) = warnings w + count_list ms Warning_guesstimate"
  by (simp add: warnings_def logged_def)

lemma entry_log_no_warning: "count_list (entry_log einval name buf) Warning_guesstimate = 0"
  by (simp add: entry_log_def split: option.splits)

lemma quiet_get_entry: "quiet (get_entry einval name buf)"
  by (simp add: quiet_def get_entry_run warnings_logged entry_log_no_warning) (simp add: logged_def)

lemma quiet_get_entry_fatal: "quiet (get_entry_fatal einval name buf)"
  by (simp add: quiet_def get_entry_fatal_run warnings_logged entry_log_no_warning) (simp add: logged_def)

lemma quiet_available_guesstimate: "quiet (available_guesstimate einval buf)"
  unfolding available_guesstimate_def
  by (intro quiet_seq quiet_get_entry_fatal quiet_lift)

lemma fst_seq: "fst (seq m f w) = (case fst (m w) of Inl e \<Rightarrow> Inl e | Inr v \<Rightarrow> fst (f v (snd (m w))))"
  by (simp add: seq_def split: prod.splits sum.splits)

lemma fst_get_entry_fatal:
  "fst (get_entry_fatal einval name buf w) =
     (if entry einval name buf = - 1 then Inl (Exit 104) else Inr (entry einval name buf))"
  by (simp add: get_entry_fatal_run)

lemma fst_available_guesstimate: "fst (available_guesstimate einval buf w) = estimate einval buf"
  by (simp add: available_guesstimate_def estimate_def fst_seq fst_get_entry_fatal lift_def and_then_def
      split: sum.splits)

lemma snd_seq: "snd (seq m f w) = (case fst (m w) of Inl e \<Rightarrow> snd (m w) | Inr v \<Rightarrow> snd (f v (snd (m w))))"
  by (simp add: seq_def split: prod.splits sum.splits)

lemma fd_logged [simp]: "fd (logged ms w) = fd w"
  and guesstimate_warned_logged [simp]: "guesstimate_warned (logged ms w) = guesstimate_warned w"
  by (simp_all add: logged_def)

lemma warn_guesstimate_once_run:
  "warn_guesstimate_once w =
     (Inr (), if guesstimate_warned w = 0
              then w\<lparr>stderr := stderr w @ [Warning_guesstimate], guesstimate_warned := 1\<rparr>
              else w)"
  by (simp add: warn_guesstimate_once_def seq_def to_stderr_def ret_def)

lemma fst_meminfo_entries:
  "fst (meminfo_entries einval buf w) =
     (if entry einval ''MemTotal:'' buf = - 1 \<or> entry einval ''SwapTotal:'' buf = - 1 \<or>
         entry einval ''SwapFree:'' buf = - 1
      then Inl (Exit 104)
      else if entry einval ''MemAvailable:'' buf = - 1
      then and_then (estimate einval buf) (\<lambda>a.
             Inr (entry einval ''MemTotal:'' buf, entry einval ''SwapTotal:'' buf,
                  entry einval ''SwapFree:'' buf, a))
      else Inr (entry einval ''MemTotal:'' buf, entry einval ''SwapTotal:'' buf,
                entry einval ''SwapFree:'' buf, entry einval ''MemAvailable:'' buf))"
  by (simp add: meminfo_entries_def fst_seq fst_get_entry_fatal get_entry_run
      fst_available_guesstimate warn_guesstimate_once_run ret_def and_then_def split: sum.splits)

lemma quietD:
  "quiet p \<Longrightarrow> fd (snd (p w)) = fd w"
  "quiet p \<Longrightarrow> guesstimate_warned (snd (p w)) = guesstimate_warned w"
  "quiet p \<Longrightarrow> warnings (snd (p w)) = warnings w"
  by (simp_all add: quiet_def)

lemmas guesstimate_world = quietD [OF quiet_available_guesstimate]

lemma warnings_logged_entry [simp]: "warnings (logged (entry_log einval name buf) w) = warnings w"
  by (simp add: warnings_logged entry_log_no_warning)

lemma warnings_warned:
  "warnings (w\<lparr>stderr := stderr w @ [Warning_guesstimate], guesstimate_warned := 1\<rparr>) = warnings w + 1"
  by (simp add: warnings_def)

lemma fallback_completes_iff:
  "fallback_completes einval buf \<longleftrightarrow>
     fst (get_entry einval ''MemAvailable:'' buf w) = Inr (- 1) \<and>
     (\<exists>ent. fst (meminfo_entries einval buf w) = Inr ent)"
  by (auto simp: fallback_completes_def fst_meminfo_entries get_entry_run and_then_def
      split: sum.splits)

lemma meminfo_entries_world:
  "fd (snd (meminfo_entries einval buf w)) = fd w \<and>
   guesstimate_warned (snd (meminfo_entries einval buf w)) =
     (if fallback_completes einval buf \<and> guesstimate_warned w = 0 then 1
      else guesstimate_warned w) \<and>
   warnings (snd (meminfo_entries einval buf w)) =
     (if fallback_completes einval buf \<and> guesstimate_warned w = 0 then warnings w + 1
      else warnings w)"
  by (simp add: fallback_completes_def)
     (simp add: meminfo_entries_def snd_seq fst_seq fst_get_entry_fatal get_entry_fatal_run
      get_entry_run fst_available_guesstimate guesstimate_world warn_guesstimate_once_run
      ret_def and_then_def warnings_warned split: sum.splits)

lemma meminfo_derive_eq:
  assumes "in_long T" "in_long ST" "in_long SF" "in_long A"
  shows "meminfo_derive (T, ST, SF, A) =
     (if \<not> in_long (A * 100) then Inl Signed_overflow
      else if T = 0 then Inl Division_by_zero
      else if 0 < ST \<and> \<not> in_long (SF * 100) then Inl Signed_overflow
      else Inr \<lparr>MemTotalKiB = T,
             MemTotalMiB = T sdiv 1024,
             MemAvailableMiB = A sdiv 1024,
             MemAvailablePercent = (A * 100) sdiv T,
             SwapTotalKiB = ST,
             SwapTotalMiB = ST sdiv 1024,
             SwapFreeMiB = SF sdiv 1024,
             SwapFreePercent = (if 0 < ST then (SF * 100) sdiv ST else 0)\<rparr>)"
  using assms
  by (simp add: meminfo_derive_def and_then_def long_mul_def long_div_def sdiv_100_in_long
      sdiv_1024_in_long)

lemma estimate_in_long: "estimate einval buf = Inr a \<Longrightarrow> in_long a"
  by (auto simp: estimate_def and_then_def long_add_def long_sub_def split: if_splits sum.splits)

lemma meminfo_entries_in_long:
  assumes "fst (meminfo_entries einval buf w) = Inr (T, ST, SF, A)"
  shows "in_long T \<and> in_long ST \<and> in_long SF \<and> in_long A"
  using assms entry_in_long estimate_in_long [of einval buf]
  by (auto simp: fst_meminfo_entries and_then_def split: if_splits sum.splits)

lemma nothing_read_iff: "(min (length xs) 8191 = 0) = (xs = [])"
  by (cases xs) simp_all

lemma fst_read_meminfo:
  "fst (read_meminfo file w) =
     (if \<not> (fd w \<or> openable file) \<or> contents file = [] then Inl (Exit 102)
      else Inr (c_string (take 8191 (contents file))))"
  by (simp add: read_meminfo_def seq_def ret_def fatal_def nothing_read_iff)

lemma read_meminfo_world:
  "guesstimate_warned (snd (read_meminfo file w)) = guesstimate_warned w \<and>
   warnings (snd (read_meminfo file w)) = warnings w \<and>
   fd (snd (read_meminfo file w)) = (fd w \<or> openable file)"
  by (simp add: read_meminfo_def seq_def ret_def fatal_def warnings_def nothing_read_iff)

lemma fst_parse_meminfo:
  "fst (parse_meminfo einval file w) =
     (case fst (read_meminfo file w) of
        Inl x \<Rightarrow> Inl x
      | Inr buf \<Rightarrow> and_then (fst (meminfo_entries einval buf w)) meminfo_derive)"
  by (simp add: parse_meminfo_def fst_seq fst_meminfo_entries lift_def and_then_def
      split: sum.splits)

lemma parse_meminfo_InrD:
  assumes "fst (parse_meminfo einval file w) = Inr m"
  obtains T ST SF A where
    "fd w \<or> openable file" "contents file \<noteq> []"
    "fst (meminfo_entries einval (c_string (take 8191 (contents file))) w) = Inr (T, ST, SF, A)"
    "meminfo_derive (T, ST, SF, A) = Inr m"
proof -
  from assms obtain buf where buf: "fst (read_meminfo file w) = Inr buf"
    by (auto simp: fst_parse_meminfo split: sum.splits)
  then have r: "fd w \<or> openable file" "contents file \<noteq> []"
    "buf = c_string (take 8191 (contents file))"
    by (auto simp: fst_read_meminfo split: if_splits)
  from assms buf obtain ent where ent: "fst (meminfo_entries einval buf w) = Inr ent"
    "meminfo_derive ent = Inr m"
    by (auto simp: fst_parse_meminfo and_then_def split: sum.splits)
  obtain T ST SF A where "ent = (T, ST, SF, A)" by (cases ent)
  with ent r that show thesis by simp
qed

lemma meminfo_derive_InrD:
  assumes "in_long T" "in_long ST" "in_long SF" "in_long A"
    and "meminfo_derive (T, ST, SF, A) = Inr m"
  shows "in_long (A * 100)" "T \<noteq> 0"
    "m = \<lparr>MemTotalKiB = T,
          MemTotalMiB = T sdiv 1024,
          MemAvailableMiB = A sdiv 1024,
          MemAvailablePercent = (A * 100) sdiv T,
          SwapTotalKiB = ST,
          SwapTotalMiB = ST sdiv 1024,
          SwapFreeMiB = SF sdiv 1024,
          SwapFreePercent = (if 0 < ST then (SF * 100) sdiv ST else 0)\<rparr>"
  using assms(5) by (simp_all add: meminfo_derive_eq [OF assms(1-4)] split: if_splits)

text \<open>Unfolding everything, to run the reader on a given blob.\<close>

lemmas blob_defs = blob_native_def blob_no_swap_def blob_swap_used_def blob_zero_total_def
  blob_no_total_def blob_fallback_def blob_shmem_above_def blob_minus_one_def
  blob_negative_total_def

lemmas run_eval =
  parse_meminfo_def read_meminfo_def meminfo_entries_def meminfo_derive_def
  available_guesstimate_def get_entry_fatal_def get_entry_def warn_guesstimate_once_def
  seq_def ret_def lift_def fatal_def to_stderr_def and_then_def
  long_add_def long_sub_def long_mul_def long_div_def signed_divide_int_def
  c_string_def readable_def initial_world_def strtol_eval blob_defs

section \<open>The global memory reader: properties\<close>

text \<open>
  C1, as amended. Whenever \<^const>\<open>parse_meminfo\<close> returns a snapshot, MemTotal is not zero
  and both percentages are the quotients of C's integer division, which truncates towards
  zero, taken after the multiplication by 100: the percentage of available memory is
  \<open>MemAvailable * 100 / MemTotal\<close>, and the percentage of free swap is
  \<open>SwapFree * 100 / SwapTotal\<close> when SwapTotal is positive and 0 otherwise. The quotients are
  the floors whenever the dividend is not negative and the divisor is positive.
  \<open>MemAvailable\<close> and \<open>SwapFree\<close> are the values the reader extracted, the last two
  components of \<^const>\<open>meminfo_entries\<close>.
\<close>

theorem parse_meminfo_percentages:
  assumes "fst (parse_meminfo einval file w) = Inr m"
  shows "\<exists>SwapFree MemAvailable.
     fst (meminfo_entries einval (c_string (take 8191 (contents file))) w) =
       Inr (MemTotalKiB m, SwapTotalKiB m, SwapFree, MemAvailable) \<and>
     MemTotalKiB m \<noteq> 0 \<and>
     MemAvailablePercent m = (MemAvailable * 100) sdiv MemTotalKiB m \<and>
     SwapFreePercent m =
       (if 0 < SwapTotalKiB m then (SwapFree * 100) sdiv SwapTotalKiB m else 0) \<and>
     (0 \<le> MemAvailable \<and> 0 < MemTotalKiB m \<longrightarrow>
        MemAvailablePercent m = (MemAvailable * 100) div MemTotalKiB m) \<and>
     (0 \<le> SwapFree \<and> 0 < SwapTotalKiB m \<longrightarrow>
        SwapFreePercent m = (SwapFree * 100) div SwapTotalKiB m)"
proof -
  from assms obtain T ST SF A where
    ent: "fst (meminfo_entries einval (c_string (take 8191 (contents file))) w) = Inr (T, ST, SF, A)"
    and der: "meminfo_derive (T, ST, SF, A) = Inr m"
    by (rule parse_meminfo_InrD)
  from meminfo_entries_in_long [OF ent]
  have il: "in_long T" "in_long ST" "in_long SF" "in_long A" by simp_all
  note m = meminfo_derive_InrD [OF il der]
  have "MemTotalKiB m = T" "SwapTotalKiB m = ST" "MemAvailablePercent m = (A * 100) sdiv T"
    "SwapFreePercent m = (if 0 < ST then (SF * 100) sdiv ST else 0)"
    by (simp_all add: m(3))
  with ent m(2) show ?thesis
    by (intro exI [of _ SF] exI [of _ A]) (simp add: sdiv_nonneg)
qed

theorem parse_meminfo_percentages_witness:
  "fst (parse_meminfo False (readable blob_native) initial_world) =
     Inr \<lparr>MemTotalKiB = 8000, MemTotalMiB = 7, MemAvailableMiB = 2, MemAvailablePercent = 37,
          SwapTotalKiB = 300, SwapTotalMiB = 0, SwapFreeMiB = 0, SwapFreePercent = 66\<rparr> \<and>
   fst (meminfo_entries False blob_native initial_world) = Inr (8000, 300, 200, 2999) \<and>
   (\<exists>SwapFree MemAvailable.
      fst (meminfo_entries False blob_native initial_world) =
        Inr (8000, 300, SwapFree, MemAvailable) \<and>
      37 = (MemAvailable * 100) div 8000 \<and> 66 = (SwapFree * 100) div 300)"
proof -
  have run: "fst (parse_meminfo False (readable blob_native) initial_world) =
     Inr \<lparr>MemTotalKiB = 8000, MemTotalMiB = 7, MemAvailableMiB = 2, MemAvailablePercent = 37,
          SwapTotalKiB = 300, SwapTotalMiB = 0, SwapFreeMiB = 0, SwapFreePercent = 66\<rparr>"
    by (simp add: run_eval)
  have ent: "fst (meminfo_entries False blob_native initial_world) = Inr (8000, 300, 200, 2999)"
    by (simp add: run_eval)
  have buf: "c_string (take 8191 (contents (readable blob_native))) = blob_native"
    by (simp add: readable_def c_string_def blob_defs)
  from parse_meminfo_percentages [OF run] ent run show ?thesis
    by (simp add: buf)
qed

text \<open>
  C1 as the specification states it fails: for a blob without MemAvailable, with MemTotal 3
  and Shmem 1 above the other three entries of the estimate, the available amount is -1 and
  the reader returns -33 percent; the floor of -100 / 3 is -34.
\<close>

theorem parse_meminfo_floor_counterexample:
  "fst (meminfo_entries False blob_shmem_above initial_world) = Inr (3, 0, 0, - 1) \<and>
   fst (parse_meminfo False (readable blob_shmem_above) initial_world) =
     Inr \<lparr>MemTotalKiB = 3, MemTotalMiB = 0, MemAvailableMiB = 0, MemAvailablePercent = - 33,
          SwapTotalKiB = 0, SwapTotalMiB = 0, SwapFreeMiB = 0, SwapFreePercent = 0\<rparr> \<and>
   MemAvailablePercent
     \<lparr>MemTotalKiB = 3, MemTotalMiB = 0, MemAvailableMiB = 0, MemAvailablePercent = - 33,
      SwapTotalKiB = 0, SwapTotalMiB = 0, SwapFreeMiB = 0, SwapFreePercent = 0\<rparr> \<noteq>
     (- 1 * 100) div 3"
  by (simp add: run_eval)

text \<open>
  C4, as amended. Whenever \<^const>\<open>parse_meminfo\<close> returns a snapshot: the percentage of
  available memory lies between 0 and 100 whenever the available amount is not negative and
  at most MemTotal; the percentage of free swap is 0 if SwapTotal is 0; and it is 0 exactly
  when SwapTotal is not positive or \<open>SwapFree * 100\<close> is smaller in absolute value than
  SwapTotal.
\<close>

theorem parse_meminfo_percent_range:
  assumes "fst (parse_meminfo einval file w) = Inr m"
  shows "\<exists>SwapFree MemAvailable.
     fst (meminfo_entries einval (c_string (take 8191 (contents file))) w) =
       Inr (MemTotalKiB m, SwapTotalKiB m, SwapFree, MemAvailable) \<and>
     (0 \<le> MemAvailable \<and> MemAvailable \<le> MemTotalKiB m \<longrightarrow>
        0 \<le> MemAvailablePercent m \<and> MemAvailablePercent m \<le> 100) \<and>
     (SwapTotalKiB m = 0 \<longrightarrow> SwapFreePercent m = 0) \<and>
     ((SwapFreePercent m = 0) =
        (SwapTotalKiB m \<le> 0 \<or> \<bar>SwapFree * 100\<bar> < SwapTotalKiB m))"
proof -
  from assms obtain T ST SF A where
    ent: "fst (meminfo_entries einval (c_string (take 8191 (contents file))) w) = Inr (T, ST, SF, A)"
    and der: "meminfo_derive (T, ST, SF, A) = Inr m"
    by (rule parse_meminfo_InrD)
  from meminfo_entries_in_long [OF ent]
  have il: "in_long T" "in_long ST" "in_long SF" "in_long A" by simp_all
  note m = meminfo_derive_InrD [OF il der]
  have f: "MemTotalKiB m = T" "SwapTotalKiB m = ST" "MemAvailablePercent m = (A * 100) sdiv T"
    "SwapFreePercent m = (if 0 < ST then (SF * 100) sdiv ST else 0)"
    by (simp_all add: m(3))
  have mem: "0 \<le> (A * 100) sdiv T \<and> (A * 100) sdiv T \<le> 100" if "0 \<le> A" "A \<le> T"
  proof -
    from that m(2) have T: "0 < T" by simp
    with that have eq: "(A * 100) sdiv T = (A * 100) div T" by (simp add: sdiv_nonneg)
    have "0 \<le> (A * 100) div T" using that T by (simp add: pos_imp_zdiv_nonneg_iff)
    moreover have "(A * 100) div T \<le> (T * 100) div T"
      using that T by (intro zdiv_mono1) simp_all
    ultimately show ?thesis using T eq by simp
  qed
  have swap: "((if 0 < ST then (SF * 100) sdiv ST else 0) = 0) = (ST \<le> 0 \<or> \<bar>SF * 100\<bar> < ST)"
    by (cases "0 < ST") (simp_all add: sdiv_eq_0_iff)
  from ent f mem swap show ?thesis
    by (intro exI [of _ SF] exI [of _ A]) simp
qed

theorem parse_meminfo_percent_range_witness:
  "fst (parse_meminfo False (readable blob_no_swap) initial_world) =
     Inr \<lparr>MemTotalKiB = 8000, MemTotalMiB = 7, MemAvailableMiB = 2, MemAvailablePercent = 37,
          SwapTotalKiB = 0, SwapTotalMiB = 0, SwapFreeMiB = 0, SwapFreePercent = 0\<rparr> \<and>
   fst (meminfo_entries False blob_no_swap initial_world) = Inr (8000, 0, 0, 2999) \<and>
   (\<exists>SwapFree MemAvailable.
      fst (meminfo_entries False blob_no_swap initial_world) =
        Inr (8000, 0, SwapFree, MemAvailable) \<and>
      0 \<le> MemAvailable \<and> MemAvailable \<le> 8000)"
proof -
  have run: "fst (parse_meminfo False (readable blob_no_swap) initial_world) =
     Inr \<lparr>MemTotalKiB = 8000, MemTotalMiB = 7, MemAvailableMiB = 2, MemAvailablePercent = 37,
          SwapTotalKiB = 0, SwapTotalMiB = 0, SwapFreeMiB = 0, SwapFreePercent = 0\<rparr>"
    by (simp add: run_eval)
  have ent: "fst (meminfo_entries False blob_no_swap initial_world) = Inr (8000, 0, 0, 2999)"
    by (simp add: run_eval)
  have buf: "c_string (take 8191 (contents (readable blob_no_swap))) = blob_no_swap"
    by (simp add: readable_def c_string_def blob_defs)
  from parse_meminfo_percent_range [OF run] ent run show ?thesis
    by (simp add: buf)
qed

text \<open>
  C4 as the specification states it fails twice. With swap all in use the percentage of free
  swap is 0 and SwapTotal is not; and the estimate of a blob whose Shmem exceeds the other
  three entries is negative, so below MemTotal, and the percentage is negative with it.
\<close>

theorem swap_percent_zero_counterexample:
  "fst (parse_meminfo False (readable blob_swap_used) initial_world) =
     Inr \<lparr>MemTotalKiB = 8000, MemTotalMiB = 7, MemAvailableMiB = 2, MemAvailablePercent = 37,
          SwapTotalKiB = 300, SwapTotalMiB = 0, SwapFreeMiB = 0, SwapFreePercent = 0\<rparr> \<and>
   SwapFreePercent
     \<lparr>MemTotalKiB = 8000, MemTotalMiB = 7, MemAvailableMiB = 2, MemAvailablePercent = 37,
      SwapTotalKiB = 300, SwapTotalMiB = 0, SwapFreeMiB = 0, SwapFreePercent = 0\<rparr> = 0 \<and>
   SwapTotalKiB
     \<lparr>MemTotalKiB = 8000, MemTotalMiB = 7, MemAvailableMiB = 2, MemAvailablePercent = 37,
      SwapTotalKiB = 300, SwapTotalMiB = 0, SwapFreeMiB = 0, SwapFreePercent = 0\<rparr> \<noteq> 0 \<and>
   fst (meminfo_entries False blob_shmem_above initial_world) = Inr (3, 0, 0, - 1) \<and>
   fst (parse_meminfo False (readable blob_shmem_above) initial_world) =
     Inr \<lparr>MemTotalKiB = 3, MemTotalMiB = 0, MemAvailableMiB = 0, MemAvailablePercent = - 33,
          SwapTotalKiB = 0, SwapTotalMiB = 0, SwapFreeMiB = 0, SwapFreePercent = 0\<rparr>"
  by (simp add: run_eval)

text \<open>
  C9, as amended. The division for the percentage of available memory has no guard, and the
  computation of the snapshot is defined only under the precondition that MemTotal is not 0.
  For a blob the reader gets all its entries from, the call ends in a division by zero
  exactly when MemTotal is 0 (and the product \<open>MemAvailable * 100\<close> before it is defined),
  and with MemTotal 0 no snapshot is returned. With MemTotal not 0, positive or negative,
  the call returns a snapshot unless one of the two products by 100 overflows. A SwapTotal
  of 0 is guarded: the call returns a snapshot, with 0 percent of free swap.
\<close>

theorem parse_meminfo_zero_total:
  assumes "fst (read_meminfo file w) = Inr buf"
    and "fst (meminfo_entries einval buf w) = Inr (MemTotal, SwapTotal, SwapFree, MemAvailable)"
  shows "((fst (parse_meminfo einval file w) = Inl Division_by_zero) =
            (MemTotal = 0 \<and> in_long (MemAvailable * 100))) \<and>
         (MemTotal = 0 \<longrightarrow> (\<forall>m. fst (parse_meminfo einval file w) \<noteq> Inr m)) \<and>
         (MemTotal \<noteq> 0 \<and> in_long (MemAvailable * 100) \<and> SwapTotal = 0 \<longrightarrow>
            (\<exists>m. fst (parse_meminfo einval file w) = Inr m \<and> SwapFreePercent m = 0)) \<and>
         (MemTotal \<noteq> 0 \<and> in_long (MemAvailable * 100) \<and>
          (0 < SwapTotal \<longrightarrow> in_long (SwapFree * 100)) \<longrightarrow>
            (\<exists>m. fst (parse_meminfo einval file w) = Inr m))"
proof -
  from meminfo_entries_in_long [OF assms(2)]
  have il: "in_long MemTotal" "in_long SwapTotal" "in_long SwapFree" "in_long MemAvailable"
    by simp_all
  have "fst (parse_meminfo einval file w) =
          meminfo_derive (MemTotal, SwapTotal, SwapFree, MemAvailable)"
    using assms by (simp add: fst_parse_meminfo and_then_def)
  then show ?thesis
    by (simp add: meminfo_derive_eq [OF il])
qed

theorem parse_meminfo_zero_total_witness:
  "fst (read_meminfo (readable blob_zero_total) initial_world) = Inr blob_zero_total \<and>
   fst (meminfo_entries False blob_zero_total initial_world) = Inr (0, 0, 0, 5) \<and>
   fst (parse_meminfo False (readable blob_zero_total) initial_world) = Inl Division_by_zero \<and>
   fst (read_meminfo (readable blob_no_swap) initial_world) = Inr blob_no_swap \<and>
   fst (meminfo_entries False blob_no_swap initial_world) = Inr (8000, 0, 0, 2999) \<and>
   (\<exists>m. fst (parse_meminfo False (readable blob_no_swap) initial_world) = Inr m \<and>
        SwapFreePercent m = 0)"
proof -
  have r: "fst (read_meminfo (readable blob_zero_total) initial_world) = Inr blob_zero_total"
    by (simp add: fst_read_meminfo readable_def c_string_def blob_defs)
  have e: "fst (meminfo_entries False blob_zero_total initial_world) = Inr (0, 0, 0, 5)"
    by (simp add: run_eval)
  have r': "fst (read_meminfo (readable blob_no_swap) initial_world) = Inr blob_no_swap"
    by (simp add: fst_read_meminfo readable_def c_string_def blob_defs)
  have e': "fst (meminfo_entries False blob_no_swap initial_world) = Inr (8000, 0, 0, 2999)"
    by (simp add: run_eval)
  from parse_meminfo_zero_total [OF r e] parse_meminfo_zero_total [OF r' e'] r e r' e'
  show ?thesis
    by (simp add: in_long_def LONG_MIN_def LONG_MAX_def)
qed

text \<open>
  C9 as the specification states it fails in its precondition: with \<^verbatim>\<open>MemTotal: -3\<close> the
  divisor is not positive, the division is defined, and the reader returns a snapshot.
\<close>

theorem negative_total_counterexample:
  "fst (meminfo_entries False blob_negative_total initial_world) = Inr (- 3, 0, 0, 1) \<and>
   fst (parse_meminfo False (readable blob_negative_total) initial_world) =
     Inr \<lparr>MemTotalKiB = - 3, MemTotalMiB = 0, MemAvailableMiB = 0, MemAvailablePercent = - 33,
          SwapTotalKiB = 0, SwapTotalMiB = 0, SwapFreeMiB = 0, SwapFreePercent = 0\<rparr> \<and>
   \<not> 0 < MemTotalKiB
     \<lparr>MemTotalKiB = - 3, MemTotalMiB = 0, MemAvailableMiB = 0, MemAvailablePercent = - 33,
      SwapTotalKiB = 0, SwapTotalMiB = 0, SwapFreeMiB = 0, SwapFreePercent = 0\<rparr>"
  by (simp add: run_eval)



lemma absent_entry: "\<not> sublist name buf \<Longrightarrow> entry einval name buf = - 1"
  by (simp add: entry_cases strstr_None_iff [symmetric])

lemma estimate_absent:
  "\<not> sublist ''Cached:'' buf \<or> \<not> sublist ''MemFree:'' buf \<or>
   \<not> sublist ''Buffers:'' buf \<or> \<not> sublist ''Shmem:'' buf \<Longrightarrow>
   estimate einval buf = Inl (Exit 104)"
  by (auto simp: estimate_def absent_entry)

lemma estimate_exit: "estimate einval buf = Inl (Exit code) \<Longrightarrow> code = 104"
  by (auto simp: estimate_def and_then_def long_add_def long_sub_def split: if_splits sum.splits)

lemma meminfo_entries_exit:
  "fst (meminfo_entries einval buf w) = Inl (Exit code) \<Longrightarrow> code = 104"
  by (auto simp: fst_meminfo_entries and_then_def split: if_splits sum.splits dest: estimate_exit)

lemma meminfo_derive_exit: "meminfo_derive ent \<noteq> Inl (Exit code)"
  by (cases ent)
     (auto simp: meminfo_derive_def and_then_def long_mul_def long_div_def split: if_splits sum.splits)

text \<open>
  C5. \<^const>\<open>parse_meminfo\<close> leaves the process with exit code 102 when the file cannot be
  opened or the read yields no byte, and with exit code 104 when the label of MemTotal,
  SwapTotal or SwapFree is absent from what was read, or MemAvailable is absent together
  with one of the four entries of the estimate. No other exit code occurs, and no error is
  returned as a value: a call gives a snapshot or does not return.
\<close>

theorem parse_meminfo_exit_codes:
  assumes "buf = c_string (take 8191 (contents file))"
  shows "(\<not> fd w \<and> \<not> openable file \<longrightarrow> fst (parse_meminfo einval file w) = Inl (Exit 102)) \<and>
         (contents file = [] \<longrightarrow> fst (parse_meminfo einval file w) = Inl (Exit 102)) \<and>
         ((fd w \<or> openable file) \<and> contents file \<noteq> [] \<and>
          (\<not> sublist ''MemTotal:'' buf \<or> \<not> sublist ''SwapTotal:'' buf \<or>
           \<not> sublist ''SwapFree:'' buf \<or>
           (\<not> sublist ''MemAvailable:'' buf \<and>
            (\<not> sublist ''Cached:'' buf \<or> \<not> sublist ''MemFree:'' buf \<or>
             \<not> sublist ''Buffers:'' buf \<or> \<not> sublist ''Shmem:'' buf))) \<longrightarrow>
            fst (parse_meminfo einval file w) = Inl (Exit 104)) \<and>
         (\<forall>code. fst (parse_meminfo einval file w) = Inl (Exit code) \<longrightarrow>
            code = 102 \<or> code = 104)"
proof -
  have 1: "fst (parse_meminfo einval file w) = Inl (Exit 102)"
    if "\<not> (fd w \<or> openable file) \<or> contents file = []"
    using that by (simp add: fst_parse_meminfo fst_read_meminfo)
  have 2: "fst (parse_meminfo einval file w) =
             and_then (fst (meminfo_entries einval buf w)) meminfo_derive"
    if "fd w \<or> openable file" "contents file \<noteq> []"
    using that assms by (simp add: fst_parse_meminfo fst_read_meminfo)
  have 3: "fst (meminfo_entries einval buf w) = Inl (Exit 104)"
    if "\<not> sublist ''MemTotal:'' buf \<or> \<not> sublist ''SwapTotal:'' buf \<or>
           \<not> sublist ''SwapFree:'' buf \<or>
           (\<not> sublist ''MemAvailable:'' buf \<and>
            (\<not> sublist ''Cached:'' buf \<or> \<not> sublist ''MemFree:'' buf \<or>
             \<not> sublist ''Buffers:'' buf \<or> \<not> sublist ''Shmem:'' buf))"
    using that estimate_absent [of buf einval]
    by (auto simp: fst_meminfo_entries absent_entry and_then_def)
  have 4: "code = 102 \<or> code = 104" if "fst (parse_meminfo einval file w) = Inl (Exit code)"
    for code
  proof (cases "(fd w \<or> openable file) \<and> contents file \<noteq> []")
    case False
    with 1 that show ?thesis by auto
  next
    case True
    with 2 that have "and_then (fst (meminfo_entries einval buf w)) meminfo_derive = Inl (Exit code)"
      by simp
    then have "code = 104"
      by (auto simp: and_then_def meminfo_derive_exit split: sum.splits dest: meminfo_entries_exit)
    then show ?thesis ..
  qed
  from 1 2 3 4 show ?thesis by (simp add: and_then_def)
qed

theorem parse_meminfo_exit_codes_witness:
  "\<not> fd initial_world \<and>
   fst (parse_meminfo False \<lparr>openable = False, contents = blob_native\<rparr> initial_world) =
     Inl (Exit 102) \<and>
   fst (parse_meminfo False (readable []) initial_world) = Inl (Exit 102) \<and>
   \<not> sublist ''MemTotal:'' blob_no_total \<and>
   fst (parse_meminfo False (readable blob_no_total) initial_world) = Inl (Exit 104)"
proof -
  have "strstr blob_no_total ''MemTotal:'' = None"
    by (simp add: blob_defs)
  then have na: "\<not> sublist ''MemTotal:'' blob_no_total"
    by (rule iffD1 [OF strstr_None_iff])
  have b: "blob_no_total = c_string (take 8191 (contents (readable blob_no_total)))"
    by (simp add: readable_def c_string_def blob_defs)
  have ne: "contents (readable blob_no_total) \<noteq> []"
    by (simp add: readable_def blob_defs)
  from parse_meminfo_exit_codes [OF b, of initial_world False] na ne
  have 1: "fst (parse_meminfo False (readable blob_no_total) initial_world) = Inl (Exit 104)"
    by (simp add: readable_def)
  from parse_meminfo_exit_codes
    [OF refl, of initial_world "\<lparr>openable = False, contents = blob_native\<rparr>" False]
  have 2: "fst (parse_meminfo False \<lparr>openable = False, contents = blob_native\<rparr> initial_world) =
     Inl (Exit 102)"
    by (simp add: initial_world_def)
  from parse_meminfo_exit_codes [OF refl, of initial_world "readable []" False]
  have 3: "fst (parse_meminfo False (readable []) initial_world) = Inl (Exit 102)"
    by (simp add: readable_def)
  from 1 2 3 na show ?thesis by (simp add: initial_world_def)
qed

lemma strtol_minus_one:
  assumes "\<forall>c \<in> set ws. isspace c" and "rest = [] \<or> \<not> isdigit (hd rest)"
  shows "strtol einval (ws @ CHR ''-'' # CHR ''1'' # rest) = (- 1, No_error)"
proof -
  have "dropWhile isspace (ws @ CHR ''-'' # CHR ''1'' # rest) =
          dropWhile isspace (CHR ''-'' # CHR ''1'' # rest)"
    using assms(1) by (intro dropWhile_append2) simp
  then have s: "subject (ws @ CHR ''-'' # CHR ''1'' # rest) = (True, CHR ''1'' # rest)"
    by (simp add: subject_def skip_sign_def isspace_def)
  have d: "digits_value 1 rest = 1"
    using assms(2) by (cases rest) simp_all
  have "\<not> no_conversion (ws @ CHR ''-'' # CHR ''1'' # rest)"
    by (simp add: no_conversion_def s isdigit_def)
  moreover have "subject_value (ws @ CHR ''-'' # CHR ''1'' # rest) = - 1"
    by (simp add: subject_value_def s isdigit_def digit_value_def d)
  ultimately show ?thesis
    by (simp add: strtol_def LONG_MAX_def LONG_MIN_def)
qed

text \<open>
  C10. When the text after the first occurrence of a label is white space, then \<^verbatim>\<open>-1\<close>, then
  no further digit, \<^const>\<open>get_entry\<close> returns -1, which is also its answer for any blob without
  the label. So \<^const>\<open>get_entry_fatal\<close> leaves with exit code 104 although the entry is
  there, the reader does the same for MemTotal, SwapTotal and SwapFree, and for MemAvailable
  the reader goes on with the estimate.
\<close>

theorem minus_one_reads_as_not_found:
  assumes "strstr buf name = Some (name @ ws @ ''-1'' @ rest)"
    and "\<forall>c \<in> set ws. isspace c"
    and "rest = [] \<or> \<not> isdigit (hd rest)"
  shows "fst (get_entry einval name buf w) = Inr (- 1) \<and>
         (\<forall>buf'. \<not> sublist name buf' \<longrightarrow>
            fst (get_entry einval name buf' w) = fst (get_entry einval name buf w)) \<and>
         fst (get_entry_fatal einval name buf w) = Inl (Exit 104) \<and>
         (name = ''MemAvailable:'' \<longrightarrow>
            (\<forall>T ST SF A. fst (meminfo_entries einval buf w) = Inr (T, ST, SF, A) \<longrightarrow>
               fst (available_guesstimate einval buf w) = Inr A)) \<and>
         (name \<in> {''MemTotal:'', ''SwapTotal:'', ''SwapFree:''} \<longrightarrow>
            (\<forall>f. fst (read_meminfo f w) = Inr buf \<longrightarrow>
               fst (parse_meminfo einval f w) = Inl (Exit 104)))"
proof -
  have e: "entry einval name buf = - 1"
    using strtol_minus_one [OF assms(2,3), of einval] assms(1) by (simp add: entry_def)
  have 1: "fst (get_entry einval name buf w) = Inr (- 1)"
    by (simp add: get_entry_run e)
  have 2: "fst (get_entry einval name buf' w) = fst (get_entry einval name buf w)"
    if "\<not> sublist name buf'" for buf'
    using that by (simp add: get_entry_run e absent_entry)
  have 3: "fst (get_entry_fatal einval name buf w) = Inl (Exit 104)"
    by (simp add: fst_get_entry_fatal e)
  have 4: "fst (available_guesstimate einval buf w) = Inr A"
    if "name = ''MemAvailable:''" "fst (meminfo_entries einval buf w) = Inr (T, ST, SF, A)"
    for T ST SF A
    using that e
    by (auto simp: fst_meminfo_entries fst_available_guesstimate and_then_def
        split: if_splits sum.splits)
  have 5: "fst (parse_meminfo einval f w) = Inl (Exit 104)"
    if "name \<in> {''MemTotal:'', ''SwapTotal:'', ''SwapFree:''}" "fst (read_meminfo f w) = Inr buf"
    for f
    using that e by (auto simp: fst_parse_meminfo fst_meminfo_entries and_then_def)
  from 1 2 3 4 5 show ?thesis by blast
qed

theorem minus_one_reads_as_not_found_witness:
  "strstr blob_minus_one ''MemAvailable:'' =
     Some (''MemAvailable:'' @ '' '' @ ''-1'' @ ''\<newline>'') \<and>
   fst (get_entry False ''MemAvailable:'' blob_minus_one initial_world) = Inr (- 1) \<and>
   fst (get_entry_fatal False ''MemAvailable:'' blob_minus_one initial_world) = Inl (Exit 104) \<and>
   fst (meminfo_entries False blob_minus_one initial_world) = Inr (1000, 0, 0, 160) \<and>
   fst (available_guesstimate False blob_minus_one initial_world) = Inr 160 \<and>
   strstr ''MemTotal: -1'' ''MemTotal:'' = Some (''MemTotal:'' @ '' '' @ ''-1'' @ []) \<and>
   fst (read_meminfo (readable ''MemTotal: -1'') initial_world) = Inr ''MemTotal: -1'' \<and>
   fst (parse_meminfo False (readable ''MemTotal: -1'') initial_world) = Inl (Exit 104)"
proof -
  have h: "strstr blob_minus_one ''MemAvailable:'' =
             Some (''MemAvailable:'' @ '' '' @ ''-1'' @ ''\<newline>'')"
    by (simp add: blob_defs)
  have ws: "\<forall>c \<in> set '' ''. isspace c"
    by (simp add: isspace_def)
  have r: "''\<newline>'' = [] \<or> \<not> isdigit (hd ''\<newline>'')"
    by (simp add: isdigit_def)
  have e: "fst (meminfo_entries False blob_minus_one initial_world) = Inr (1000, 0, 0, 160)"
    by (simp add: run_eval)
  have h': "strstr ''MemTotal: -1'' ''MemTotal:'' = Some (''MemTotal:'' @ '' '' @ ''-1'' @ [])"
    by simp
  have r': "[] = [] \<or> \<not> isdigit (hd [])"
    by simp
  have rd: "fst (read_meminfo (readable ''MemTotal: -1'') initial_world) = Inr ''MemTotal: -1''"
    by (simp add: fst_read_meminfo readable_def c_string_def)
  from minus_one_reads_as_not_found [OF h ws r, of False initial_world]
    minus_one_reads_as_not_found [OF h' ws r', of False initial_world] e h h' rd
  show ?thesis by simp
qed

lemma snd_parse_meminfo:
  "snd (parse_meminfo einval file w) =
     (case fst (read_meminfo file w) of
        Inl _ \<Rightarrow> snd (read_meminfo file w)
      | Inr buf \<Rightarrow> snd (meminfo_entries einval buf (snd (read_meminfo file w))))"
  by (simp add: parse_meminfo_def snd_seq fst_seq lift_def split: sum.splits)

lemma parse_meminfo_world:
  "guesstimate_warned (snd (parse_meminfo einval file w)) =
     (if guesstimate_warned w = 0 \<and>
         (\<exists>buf. fst (read_meminfo file w) = Inr buf \<and> fallback_completes einval buf)
      then 1 else guesstimate_warned w) \<and>
   warnings (snd (parse_meminfo einval file w)) =
     (if guesstimate_warned w = 0 \<and>
         (\<exists>buf. fst (read_meminfo file w) = Inr buf \<and> fallback_completes einval buf)
      then warnings w + 1 else warnings w)"
  by (simp add: snd_parse_meminfo meminfo_entries_world read_meminfo_world split: sum.splits)

lemma calls_after_warning:
  "guesstimate_warned w \<noteq> 0 \<Longrightarrow>
     warnings (parse_meminfo_calls einval files w) = warnings w \<and>
     guesstimate_warned (parse_meminfo_calls einval files w) = guesstimate_warned w"
proof (induction files arbitrary: w)
  case Nil
  then show ?case by simp
next
  case (Cons f files)
  obtain r w' where p: "parse_meminfo einval f w = (r, w')" by (cases "parse_meminfo einval f w")
  from parse_meminfo_world [of einval f w] p Cons.prems
  have w': "guesstimate_warned w' = guesstimate_warned w" "warnings w' = warnings w" by simp_all
  show ?case
  proof (cases r)
    case (Inl e)
    with p w' show ?thesis by simp
  next
    case (Inr m)
    with p w' Cons.IH [of w'] Cons.prems show ?thesis by simp
  qed
qed

lemma calls_before_warning:
  "guesstimate_warned w = 0 \<Longrightarrow>
     warnings (parse_meminfo_calls einval files w) \<le> warnings w + 1"
proof (induction files arbitrary: w)
  case Nil
  then show ?case by simp
next
  case (Cons f files)
  obtain r w' where p: "parse_meminfo einval f w = (r, w')" by (cases "parse_meminfo einval f w")
  show ?case
  proof (cases "guesstimate_warned w' = 0")
    case True
    with parse_meminfo_world [of einval f w] p Cons.prems
    have "warnings w' = warnings w" by (simp split: if_splits)
    with p True Cons.IH [of w'] show ?thesis by (cases r) simp_all
  next
    case False
    with parse_meminfo_world [of einval f w] p Cons.prems
    have "warnings w' \<le> warnings w + 1" by (simp split: if_splits)
    with p calls_after_warning [OF False, of einval files] show ?thesis by (cases r) simp_all
  qed
qed

text \<open>
  C8. Over any sequence of calls from the start of the process the warning about the
  estimate is written at most once. A call that goes through the estimate while the flag
  \<open>guesstimate_warned\<close> is 0 writes it once and sets the flag; once the flag is set, neither
  the next call nor any number of later calls writes it again.
\<close>

theorem guesstimate_warning_at_most_once:
  "warnings (parse_meminfo_calls einval files initial_world) \<le> 1 \<and>
   (guesstimate_warned w = 0 \<and> fst (read_meminfo file w) = Inr buf \<and>
    fst (get_entry einval ''MemAvailable:'' buf w) = Inr (- 1) \<and>
    fst (meminfo_entries einval buf w) = Inr ent \<longrightarrow>
      warnings (snd (parse_meminfo einval file w)) = warnings w + 1 \<and>
      guesstimate_warned (snd (parse_meminfo einval file w)) = 1) \<and>
   (guesstimate_warned w \<noteq> 0 \<longrightarrow>
      warnings (snd (parse_meminfo einval file w)) = warnings w \<and>
      guesstimate_warned (snd (parse_meminfo einval file w)) = guesstimate_warned w \<and>
      warnings (parse_meminfo_calls einval files w) = warnings w)"
proof -
  have 1: "warnings (parse_meminfo_calls einval files initial_world) \<le> 1"
    using calls_before_warning [of initial_world einval files]
    by (simp add: initial_world_def warnings_def)
  have 2: "warnings (snd (parse_meminfo einval file w)) = warnings w + 1 \<and>
      guesstimate_warned (snd (parse_meminfo einval file w)) = 1"
    if "guesstimate_warned w = 0" "fst (read_meminfo file w) = Inr buf"
      "fst (get_entry einval ''MemAvailable:'' buf w) = Inr (- 1)"
      "fst (meminfo_entries einval buf w) = Inr ent"
  proof -
    from that(3,4) have "fallback_completes einval buf"
      unfolding fallback_completes_iff [of einval buf w] by blast
    with that(1,2) show ?thesis by (simp add: parse_meminfo_world)
  qed
  have 3: "warnings (snd (parse_meminfo einval file w)) = warnings w \<and>
      guesstimate_warned (snd (parse_meminfo einval file w)) = guesstimate_warned w \<and>
      warnings (parse_meminfo_calls einval files w) = warnings w"
    if "guesstimate_warned w \<noteq> 0"
    using that calls_after_warning [OF that, of einval files] by (simp add: parse_meminfo_world)
  from 1 2 3 show ?thesis by blast
qed

theorem guesstimate_warning_at_most_once_witness:
  "guesstimate_warned initial_world = 0 \<and>
   fst (read_meminfo (readable blob_fallback) initial_world) = Inr blob_fallback \<and>
   fst (get_entry False ''MemAvailable:'' blob_fallback initial_world) = Inr (- 1) \<and>
   fst (meminfo_entries False blob_fallback initial_world) = Inr (1000, 0, 0, 160) \<and>
   warnings (snd (parse_meminfo False (readable blob_fallback) initial_world)) = 1 \<and>
   warnings (parse_meminfo_calls False
     [readable blob_fallback, readable blob_fallback, readable blob_fallback] initial_world) = 1"
proof -
  let ?f = "readable blob_fallback"
  let ?w = "\<lparr>fd = True, guesstimate_warned = 1, stderr = [Warning_guesstimate]\<rparr>"
  have w: "guesstimate_warned initial_world = 0" "warnings initial_world = 0"
    by (simp_all add: initial_world_def warnings_def)
  have r: "fst (read_meminfo ?f initial_world) = Inr blob_fallback"
    by (simp add: fst_read_meminfo readable_def c_string_def blob_defs)
  have a: "fst (get_entry False ''MemAvailable:'' blob_fallback initial_world) = Inr (- 1)"
    by (simp add: get_entry_def ret_def blob_defs)
  have e: "fst (meminfo_entries False blob_fallback initial_world) = Inr (1000, 0, 0, 160)"
    by (simp add: run_eval)
  have p: "parse_meminfo False ?f initial_world =
     (Inr \<lparr>MemTotalKiB = 1000, MemTotalMiB = 0, MemAvailableMiB = 0, MemAvailablePercent = 16,
          SwapTotalKiB = 0, SwapTotalMiB = 0, SwapFreeMiB = 0, SwapFreePercent = 0\<rparr>, ?w)"
    by (simp add: run_eval)
  note t = guesstimate_warning_at_most_once
  from t [of False "[?f, ?f]" initial_world ?f blob_fallback "(1000, 0, 0, 160)"] w r a e
  have 1: "warnings (snd (parse_meminfo False ?f initial_world)) = 1"
    by simp
  from t [of False "[?f, ?f]" ?w ?f]
  have 2: "warnings (parse_meminfo_calls False [?f, ?f] ?w) = 1"
    by (simp add: warnings_def)
  from p 2 have 3: "warnings (parse_meminfo_calls False [?f, ?f, ?f] initial_world) = 1"
    by simp
  from w r a e 1 3 show ?thesis by simp
qed

section \<open>The process introspector: properties\<close>

lemmas scan_eval = fscanf_d_s_c_def scan_d_def scan_s_def scan_c_def subject_def skip_sign_def
  isspace_def isdigit_def

text \<open>
  C6. \<^const>\<open>is_alive\<close> always returns, never ends the process: false without a warning when
  the status file cannot be opened, false with a warning when the file opens and \<^verbatim>\<open>fscanf\<close>
  stores no state character, false without a warning when the character stored is \<^verbatim>\<open>Z\<close>, and
  true for every other character stored.
\<close>

theorem is_alive_verdict:
  "(proc_stat pid = None \<longrightarrow> is_alive proc_stat pid w = (Inr False, w)) \<and>
   (\<forall>content. proc_stat pid = Some content \<longrightarrow>
      (fscanf_d_s_c content = None \<longrightarrow>
         is_alive proc_stat pid w = (Inr False, w\<lparr>stderr := stderr w @ [Warn_is_alive]\<rparr>)) \<and>
      (fscanf_d_s_c content = Some CHR ''Z'' \<longrightarrow>
         is_alive proc_stat pid w = (Inr False, w)) \<and>
      (\<forall>state. fscanf_d_s_c content = Some state \<and> state \<noteq> CHR ''Z'' \<longrightarrow>
         is_alive proc_stat pid w = (Inr True, w)))"
  by (simp add: is_alive_def ret_def seq_def warn_def to_stderr_def)

theorem is_alive_verdict_witness:
  "is_alive (\<lambda>p. if p = 7 then Some ''7 (cat) R 1 7'' else None) 8 initial_world =
     (Inr False, initial_world) \<and>
   fscanf_d_s_c ''7 (cat) R 1 7'' = Some CHR ''R'' \<and>
   is_alive (\<lambda>p. if p = 7 then Some ''7 (cat) R 1 7'' else None) 7 initial_world =
     (Inr True, initial_world) \<and>
   fscanf_d_s_c ''7 (cat) Z 1 7'' = Some CHR ''Z'' \<and>
   is_alive (\<lambda>p. if p = 7 then Some ''7 (cat) Z 1 7'' else None) 7 initial_world =
     (Inr False, initial_world) \<and>
   fscanf_d_s_c ''7 '' = None \<and>
   is_alive (\<lambda>p. if p = 7 then Some ''7 '' else None) 7 initial_world =
     (Inr False, initial_world\<lparr>stderr := stderr initial_world @ [Warn_is_alive]\<rparr>)"
  using is_alive_verdict [of "\<lambda>p. if p = 7 then Some ''7 (cat) R 1 7'' else None" 8 initial_world]
    is_alive_verdict [of "\<lambda>p. if p = 7 then Some ''7 (cat) R 1 7'' else None" 7 initial_world]
    is_alive_verdict [of "\<lambda>p. if p = 7 then Some ''7 (cat) Z 1 7'' else None" 7 initial_world]
    is_alive_verdict [of "\<lambda>p. if p = 7 then Some ''7 '' else None" 7 initial_world]
  by (simp add: scan_eval)

text \<open>
  For a status line whose name field holds no white space, parentheses or not, the character
  stored is the state, and the verdict follows it.
\<close>

lemma fscanf_plain_name:
  assumes pid: "pid \<noteq> []" "\<forall>c \<in> set pid. isdigit c"
    and name: "\<forall>c \<in> set name. \<not> isspace c"
    and state: "\<not> isspace state"
  shows "fscanf_d_s_c (pid @ CHR '' '' # CHR ''('' # name @ CHR '')'' # CHR '' '' # state # rest) =
           Some state"
proof -
  let ?r2 = "CHR '')'' # CHR '' '' # state # rest"
  let ?r1 = "CHR '' '' # CHR ''('' # name @ ?r2"
  obtain d ds where p: "pid = d # ds" using pid(1) by (cases pid) auto
  with pid(2) have d: "isdigit d" and ds: "\<forall>c \<in> set ds. isdigit c" by simp_all
  from d have nsp: "\<not> isspace d" and nsign: "d \<noteq> CHR ''-''" "d \<noteq> CHR ''+''"
    by (auto simp: isdigit_def isspace_def)
  have "dropWhile isspace (d # ds @ ?r1) = d # ds @ ?r1"
    using nsp by simp
  then have sub: "subject (pid @ ?r1) = (False, d # ds @ ?r1)"
    using nsign by (simp add: subject_def skip_sign_def p)
  have nd: "\<not> isdigit (CHR '' '')" by (simp add: isdigit_def)
  have "dropWhile isdigit (ds @ ?r1) = dropWhile isdigit ?r1"
    using ds by (intro dropWhile_append2) simp
  also have "\<dots> = ?r1" using nd by simp
  finally have 1: "scan_d (pid @ ?r1) = Some ?r1"
    using d by (simp add: scan_d_def sub)
  have sp: "isspace (CHR '' '')" "\<not> isspace (CHR ''('')" "\<not> isspace (CHR '')'')"
    by (simp_all add: isspace_def)
  have "dropWhile (\<lambda>x. \<not> isspace x) (name @ ?r2) = dropWhile (\<lambda>x. \<not> isspace x) ?r2"
    using name by (intro dropWhile_append2) simp
  also have "\<dots> = CHR '' '' # state # rest" using sp by simp
  finally have 2: "scan_s (dropWhile isspace ?r1) = Some (CHR '' '' # state # rest)"
    using sp by (simp add: scan_s_def)
  have 3: "scan_c (dropWhile isspace (CHR '' '' # state # rest)) = Some state"
    using state sp by (simp add: scan_c_def)
  show ?thesis
    by (simp only: fscanf_d_s_c_def 1 2 3 option.case)
qed

lemma is_alive_plain_name:
  assumes "proc_stat pid = Some (digits @ '' ('' @ name @ '') '' @ state # rest)"
    and "digits \<noteq> []" "\<forall>c \<in> set digits. isdigit c" "\<forall>c \<in> set name. \<not> isspace c"
    "\<not> isspace state"
  shows "fst (is_alive proc_stat pid w) = Inr (state \<noteq> CHR ''Z'')"
  using assms(1) fscanf_plain_name [OF assms(2-5), of rest]
  by (simp add: is_alive_def ret_def)

text \<open>
  C7. The state character is not what \<^const>\<open>is_alive\<close> reads when the name holds a
  blank: \<^verbatim>\<open>%*s\<close> stops at the blank and \<^verbatim>\<open>%c\<close> takes the first character of the rest of the
  name. The zombie \<^verbatim>\<open>1234 (Web Content) Z ...\<close> is reported alive, the zombie
  \<^verbatim>\<open>1234 (WebContent) Z ...\<close> is not.
\<close>

theorem is_alive_name_with_blank:
  "fscanf_d_s_c ''1234 (Web Content) Z 1 1234 1234 0 -1'' = Some CHR ''C'' \<and>
   fst (is_alive (\<lambda>p. if p = 1234 then Some ''1234 (Web Content) Z 1 1234 1234 0 -1'' else None)
          1234 initial_world) = Inr True \<and>
   fst (is_alive (\<lambda>p. if p = 1234 then Some ''1234 (WebContent) Z 1 1234 1234 0 -1'' else None)
          1234 initial_world) = Inr False"
  by (simp add: is_alive_def ret_def scan_eval)

end
